theory Spec2Isabelle
  imports Complex_Main "HOL-Library.Multiset"
begin

section \<open>Python floats\<close>

text \<open>
  Every number of the application (ordinates, bounds, the value column) is a Python
  \<^verbatim>\<open>float\<close>. Only comparisons are made on them by the repository's code, so a float
  is a finite real, an infinity or NaN, compared the way Python compares: every
  comparison with NaN is false.
\<close>

datatype pyfloat = Finite real | PosInf | NegInf | NaN

fun fle :: "pyfloat \<Rightarrow> pyfloat \<Rightarrow> bool" where
  "fle NaN y = False"
| "fle x NaN = False"
| "fle NegInf y = True"
| "fle x PosInf = True"
| "fle (Finite a) (Finite b) = (a \<le> b)"
| "fle x y = False"

fun flt :: "pyfloat \<Rightarrow> pyfloat \<Rightarrow> bool" where
  "flt NaN y = False"
| "flt x NaN = False"
| "flt (Finite a) (Finite b) = (a < b)"
| "flt x NegInf = False"
| "flt PosInf y = False"
| "flt x y = True"

definition fge :: "pyfloat \<Rightarrow> pyfloat \<Rightarrow> bool" where
  "fge x y = fle y x"

definition fgt :: "pyfloat \<Rightarrow> pyfloat \<Rightarrow> bool" where
  "fgt x y = flt y x"

section \<open>Geometry values of the libraries\<close>

text \<open>
  A shapely geometry, as far as the application tells geometries apart: a point with
  its two ordinates, or a geometry of another kind with its vertices.
\<close>

datatype shape =
    Point pyfloat pyfloat
  | LineString "(pyfloat \<times> pyfloat) list"
  | Polygon "(pyfloat \<times> pyfloat) list"

text \<open>
  A \<^verbatim>\<open>WKBElement\<close> (geoalchemy2) is a geometry in binary form tagged with an SRID.
\<close>

record WKBElement =
  data :: shape
  srid :: int

text \<open>
  Modelled from the spec: \<^verbatim>\<open>from_shape\<close> of geoalchemy2 (toNative), which is not under
  src/. It produces the native value for a geometry, tagged with the given SRID. The
  specification asks of encoding and decoding "same point in, same point out", and WKB
  holds the two doubles of a point as they are, so the bytes are held as the geometry
  they encode.
\<close>

definition from_shape :: "shape \<Rightarrow> int \<Rightarrow> WKBElement" where
  "from_shape shp s = \<lparr>data = shp, srid = s\<rparr>"

text \<open>
  Modelled from the spec: \<^verbatim>\<open>to_shape\<close> of geoalchemy2, which is not under src/. It gives
  back the geometry a native value encodes.
\<close>

definition to_shape :: "WKBElement \<Rightarrow> shape" where
  "to_shape v = data v"

text \<open>
  The WKT reader and writer of shapely (\<^verbatim>\<open>wkt.loads\<close>, the \<^verbatim>\<open>.wkt\<close> property) are not code
  of the repository: every operation below takes them as parameters. The reader
  returns \<open>None\<close> where \<^verbatim>\<open>wkt.loads\<close> raises.
\<close>

type_synonym wkt_reader = "string \<Rightarrow> shape option"
type_synonym wkt_writer = "shape \<Rightarrow> string"

text \<open>
  The storage engine (SpatiaLite in development, PostGIS in production, chosen by
  \<^verbatim>\<open>settings.is_development\<close>) is not code of the repository either. An insert asks two
  things of it, and both are parameters: \<open>geom_from_ewkt\<close> reads the EWKT text bound
  for the geometry column (an SRID and a WKT text) as a value of a \<^verbatim>\<open>POINT\<close> column, and
  is \<open>None\<close> where the engine raises instead (a text it cannot read, a geometry the
  column does not take); \<open>stores_float\<close> tells whether the engine takes a float for the
  \<^verbatim>\<open>nullable=False\<close> column \<^verbatim>\<open>value\<close> (SQLite binds NaN as NULL and refuses it).
\<close>

record engine =
  geom_from_ewkt :: "int \<Rightarrow> string \<Rightarrow> (pyfloat \<times> pyfloat) option"
  stores_float :: "pyfloat \<Rightarrow> bool"

section \<open>Exceptions\<close>

datatype error =
    ShapelyError
  | SQLAlchemyError string
  | HTTPException nat string
  | RequestValidationError "string list"
  | ResponseValidationError

section \<open>models.py: the table and its mapped class\<close>

text \<open>
  \<^verbatim>\<open>ExamplePoint\<close> is both the mapped class and the declaration of table
  \<^verbatim>\<open>example_point\<close>. An instance has no \<^verbatim>\<open>id\<close> and no \<^verbatim>\<open>created_at\<close> until it is flushed.
  A row of the table has all four columns (\<^verbatim>\<open>primary_key\<close>, \<^verbatim>\<open>nullable=False\<close>), and its
  geometry column has type \<^verbatim>\<open>Geometry("POINT", srid=4326)\<close>: a point with its SRID.
\<close>

type_synonym datetime = int

record ExamplePoint =
  id' :: "int option"
  created_at :: "datetime option"
  geom :: WKBElement
  value' :: pyfloat

record point_value =
  pv_srid :: int
  pv_x :: pyfloat
  pv_y :: pyfloat

record example_point_row =
  col_id :: int
  col_created_at :: datetime
  col_geom :: point_value
  col_value :: pyfloat

section \<open>db.py: the storage behind a session\<close>

text \<open>
  The state every operation runs against: the rows of \<^verbatim>\<open>example_point\<close> in the order
  the engine scans them, the last value of the id sequence, the statements executed
  so far, and how many sessions were created by \<^verbatim>\<open>SessionLocal()\<close> and closed by
  \<^verbatim>\<open>db.close()\<close>.
\<close>

datatype statement = INSERT | COMMIT | SELECT

record storage =
  rows :: "example_point_row list"
  id_seq :: int
  executed :: "statement list"
  acquired :: nat
  released :: nat

definition SessionLocal :: "storage \<Rightarrow> storage" where
  "SessionLocal st = st\<lparr>acquired := acquired st + 1\<rparr>"

definition close :: "storage \<Rightarrow> storage" where
  "close st = st\<lparr>released := released st + 1\<rparr>"

text \<open>
  \<^verbatim>\<open>get_db\<close>: \<^verbatim>\<open>db = SessionLocal(); try: yield db; finally: db.close()\<close>. The body is the
  request that runs at the \<^verbatim>\<open>yield\<close>; an exception of the body is a value \<open>Inl e\<close>
  of its result, and the \<^verbatim>\<open>finally\<close> block runs after either outcome.
\<close>

definition get_db :: "(storage \<Rightarrow> (error + 'a) \<times> storage) \<Rightarrow> storage \<Rightarrow> (error + 'a) \<times> storage" where
  "get_db body st =
     (let db = SessionLocal st;
          (r, db') = body db
      in (r, close db'))"

section \<open>schemas.py: request and response schemas\<close>

record ExamplePointCreate =
  geom_text :: string
  value_in :: pyfloat

record ExamplePointModel =
  m_id :: int
  m_created_at :: "datetime option"
  m_geom :: string
  m_value :: pyfloat

text \<open>
  The \<^verbatim>\<open>geom\<close> attribute handed to the validator is a \<^verbatim>\<open>WKBElement\<close> or already a string.
\<close>

datatype geom_attr = Wkb WKBElement | Str string

fun convert_wkb_to_wkt :: "wkt_writer \<Rightarrow> geom_attr \<Rightarrow> string" where
  "convert_wkb_to_wkt wkt (Wkb v) = wkt (to_shape v)"
| "convert_wkb_to_wkt wkt (Str v) = v"

text \<open>
  \<^verbatim>\<open>response_model=ExamplePointModel\<close> with \<^verbatim>\<open>from_attributes\<close>: the model is read off the
  attributes of the returned instance; \<^verbatim>\<open>id: int\<close> refuses an instance without an id.
\<close>

definition model_validate :: "wkt_writer \<Rightarrow> ExamplePoint \<Rightarrow> error + ExamplePointModel" where
  "model_validate wkt obj =
     (case id' obj of
        None \<Rightarrow> Inl ResponseValidationError
      | Some i \<Rightarrow>
          Inr \<lparr>m_id = i, m_created_at = created_at obj,
               m_geom = convert_wkb_to_wkt wkt (Wkb (geom obj)), m_value = value' obj\<rparr>)"

fun model_validate_list :: "wkt_writer \<Rightarrow> ExamplePoint list \<Rightarrow> error + ExamplePointModel list" where
  "model_validate_list wkt [] = Inr []"
| "model_validate_list wkt (obj # objs) =
     (case model_validate wkt obj of
        Inl e \<Rightarrow> Inl e
      | Inr m \<Rightarrow>
          (case model_validate_list wkt objs of
             Inl e \<Rightarrow> Inl e
           | Inr ms \<Rightarrow> Inr (m # ms)))"

section \<open>The statements the session executes\<close>

text \<open>
  Loading a row into an instance of the mapped class.
\<close>

definition load :: "example_point_row \<Rightarrow> ExamplePoint" where
  "load r =
     \<lparr>id' = Some (col_id r), created_at = Some (col_created_at r),
      geom = \<lparr>data = Point (pv_x (col_geom r)) (pv_y (col_geom r)), srid = pv_srid (col_geom r)\<rparr>,
      value' = col_value r\<rparr>"

text \<open>
  \<^verbatim>\<open>db.add(db_obj); db.commit()\<close> for the one pending instance of a request. The flush
  fills \<^verbatim>\<open>created_at\<close> from the column default \<^verbatim>\<open>datetime.now(timezone.utc)\<close> (the clock
  reading \<open>now\<close>) when the instance has none, and inserts the row. The geometry is not
  bound as its bytes: geoalchemy2 binds a \<^verbatim>\<open>WKBElement\<close> as the EWKT text made of its SRID
  and of \<^verbatim>\<open>to_shape(value).wkt\<close>, and the engine reads that text, so the ordinates stored
  are the engine's reading of the decimal text the WKT writer wrote, not the doubles
  of the instance. The column type \<^verbatim>\<open>Geometry("POINT", srid=4326)\<close> of models.py admits
  SRID 4326 only; the id comes from the sequence and is the primary key. A refused
  insert raises and leaves the table as it was.
\<close>

definition commit :: "wkt_writer \<Rightarrow> engine \<Rightarrow> datetime \<Rightarrow> ExamplePoint \<Rightarrow> storage \<Rightarrow> (error + int) \<times> storage" where
  "commit wkt eng now obj db =
     (let db1 = db\<lparr>executed := executed db @ [INSERT]\<rparr>;
          pk = (case id' obj of None \<Rightarrow> id_seq db + 1 | Some i \<Rightarrow> i);
          ts = (case created_at obj of None \<Rightarrow> now | Some t \<Rightarrow> t)
      in if srid (geom obj) \<noteq> 4326 then
           (Inl (SQLAlchemyError ''geometry SRID does not match column SRID''), db1)
         else
           (case geom_from_ewkt eng (srid (geom obj)) (wkt (to_shape (geom obj))) of
              None \<Rightarrow> (Inl (SQLAlchemyError ''geometry refused by the engine''), db1)
            | Some (x, y) \<Rightarrow>
                if \<not> stores_float eng (value' obj) then
                  (Inl (SQLAlchemyError ''NOT NULL constraint failed''), db1)
                else if pk \<in> set (map col_id (rows db)) then
                  (Inl (SQLAlchemyError ''duplicate primary key''), db1)
                else
                  (Inr pk,
                   db1\<lparr>rows := rows db @
                          [\<lparr>col_id = pk, col_created_at = ts,
                            col_geom = \<lparr>pv_srid = srid (geom obj), pv_x = x, pv_y = y\<rparr>,
                            col_value = value' obj\<rparr>],
                        id_seq := (case id' obj of None \<Rightarrow> pk | Some i \<Rightarrow> id_seq db),
                        executed := executed db @ [INSERT, COMMIT]\<rparr>)))"

text \<open>
  \<^verbatim>\<open>db.refresh(db_obj)\<close>: the attributes are read again from the row with the instance's
  primary key.
\<close>

definition refresh :: "int \<Rightarrow> storage \<Rightarrow> (error + ExamplePoint) \<times> storage" where
  "refresh pk db =
     (let db1 = db\<lparr>executed := executed db @ [SELECT]\<rparr>
      in case find (\<lambda>r. col_id r = pk) (rows db) of
           None \<Rightarrow> (Inl (SQLAlchemyError ''could not refresh instance''), db1)
         | Some r \<Rightarrow> (Inr (load r), db1))"

text \<open>
  The two SQL functions of the bounding-box query. \<^verbatim>\<open>ST_MakeEnvelope(x1, y1, x2, y2, srid)\<close>
  is the rectangle with the corners \<open>(x1, y1)\<close> and \<open>(x2, y2)\<close>; \<^verbatim>\<open>ST_Intersects\<close> of a point
  and a rectangle holds when the point lies in the rectangle, its boundary included,
  and is an error when the two SRIDs differ.
\<close>

record envelope =
  env_x1 :: pyfloat
  env_y1 :: pyfloat
  env_x2 :: pyfloat
  env_y2 :: pyfloat
  env_srid :: int

definition ST_MakeEnvelope :: "pyfloat \<Rightarrow> pyfloat \<Rightarrow> pyfloat \<Rightarrow> pyfloat \<Rightarrow> int \<Rightarrow> envelope" where
  "ST_MakeEnvelope x1 y1 x2 y2 s = \<lparr>env_x1 = x1, env_y1 = y1, env_x2 = x2, env_y2 = y2, env_srid = s\<rparr>"

definition between :: "pyfloat \<Rightarrow> pyfloat \<Rightarrow> pyfloat \<Rightarrow> bool" where
  "between a b v = ((fle a v \<and> fle v b) \<or> (fle b v \<and> fle v a))"

definition ST_Intersects :: "point_value \<Rightarrow> envelope \<Rightarrow> error + bool" where
  "ST_Intersects p e =
     (if pv_srid p \<noteq> env_srid e then Inl (SQLAlchemyError ''operation on mixed SRID geometries'')
      else Inr (between (env_x1 e) (env_x2 e) (pv_x p) \<and> between (env_y1 e) (env_y2 e) (pv_y p)))"

text \<open>
  \<^verbatim>\<open>.where(cond)\<close>: the rows on which the condition is true, in scan order; an error of
  the condition on a row is the error of the statement.
\<close>

fun where_rows :: "(example_point_row \<Rightarrow> error + bool) \<Rightarrow> example_point_row list \<Rightarrow> error + example_point_row list" where
  "where_rows cond [] = Inr []"
| "where_rows cond (r # rs) =
     (case cond r of
        Inl e \<Rightarrow> Inl e
      | Inr b \<Rightarrow>
          (case where_rows cond rs of
             Inl e \<Rightarrow> Inl e
           | Inr keep \<Rightarrow> Inr (if b then r # keep else keep)))"

section \<open>crud.py\<close>

definition create_example_point :: "wkt_reader \<Rightarrow> wkt_writer \<Rightarrow> engine \<Rightarrow> datetime \<Rightarrow> storage \<Rightarrow> ExamplePointCreate \<Rightarrow> (error + ExamplePoint) \<times> storage" where
  "create_example_point wkt_loads wkt eng now db payload =
     (case wkt_loads (geom_text payload) of
        None \<Rightarrow> (Inl ShapelyError, db)
      | Some shp \<Rightarrow>
          (let point_geom = from_shape shp 4326;
               db_obj = \<lparr>id' = None, created_at = None, geom = point_geom, value' = value_in payload\<rparr>
           in case commit wkt eng now db_obj db of
                (Inl e, db1) \<Rightarrow> (Inl e, db1)
              | (Inr pk, db1) \<Rightarrow> refresh pk db1))"

definition get_all_example_points :: "storage \<Rightarrow> (error + ExamplePoint list) \<times> storage" where
  "get_all_example_points db =
     (Inr (map load (rows db)), db\<lparr>executed := executed db @ [SELECT]\<rparr>)"

definition get_example_points_in_bbox :: "storage \<Rightarrow> pyfloat \<Rightarrow> pyfloat \<Rightarrow> pyfloat \<Rightarrow> pyfloat \<Rightarrow> (error + ExamplePoint list) \<times> storage" where
  "get_example_points_in_bbox db min_lat max_lat min_lon max_lon =
     (let envelope = ST_MakeEnvelope min_lon min_lat max_lon max_lat 4326;
          db1 = db\<lparr>executed := executed db @ [SELECT]\<rparr>
      in case where_rows (\<lambda>r. ST_Intersects (col_geom r) envelope) (rows db) of
           Inl e \<Rightarrow> (Inl e, db1)
         | Inr rs \<Rightarrow> (Inr (map load (sort_key col_id rs)), db1))"

section \<open>routes.py\<close>

text \<open>
  The three handlers as they are written: each receives the session of \<^verbatim>\<open>get_db\<close> as
  its \<^verbatim>\<open>db\<close> argument.
\<close>

definition create_point :: "wkt_reader \<Rightarrow> wkt_writer \<Rightarrow> engine \<Rightarrow> datetime \<Rightarrow> ExamplePointCreate \<Rightarrow> storage \<Rightarrow> (error + ExamplePoint) \<times> storage" where
  "create_point wkt_loads wkt eng now payload db = create_example_point wkt_loads wkt eng now db payload"


definition read_points_in_bbox :: "pyfloat \<Rightarrow> pyfloat \<Rightarrow> pyfloat \<Rightarrow> pyfloat \<Rightarrow> storage \<Rightarrow> (error + ExamplePoint list) \<times> storage" where
  "read_points_in_bbox min_lat max_lat min_lon max_lon db =
     (if fgt min_lat max_lat then
        (Inl (HTTPException 422 ''min_lat must be <= max_lat''), db)
      else if fgt min_lon max_lon then
        (Inl (HTTPException 422 ''min_lon must be <= max_lon''), db)
      else get_example_points_in_bbox db min_lat max_lat min_lon max_lon)"

text \<open>
  What the framework does around a handler, as the decorators and annotations of
  routes.py declare it: \<^verbatim>\<open>Depends(get_db)\<close> opens the session, the \<^verbatim>\<open>Query(ge=.., le=..)\<close>
  constraints are checked on the four bounds (all failures are reported together, and
  the handler is not called), the handler runs, and its result is converted to the
  \<^verbatim>\<open>response_model\<close>.
\<close>

definition Query_ge_le :: "real \<Rightarrow> real \<Rightarrow> pyfloat \<Rightarrow> bool" where
  "Query_ge_le lo hi v = (fge v (Finite lo) \<and> fle v (Finite hi))"

definition bbox_query_errors :: "pyfloat \<Rightarrow> pyfloat \<Rightarrow> pyfloat \<Rightarrow> pyfloat \<Rightarrow> string list" where
  "bbox_query_errors min_lat max_lat min_lon max_lon =
     (if Query_ge_le (-90) 90 min_lat then [] else [''min_lat'']) @
     (if Query_ge_le (-90) 90 max_lat then [] else [''max_lat'']) @
     (if Query_ge_le (-180) 180 min_lon then [] else [''min_lon'']) @
     (if Query_ge_le (-180) 180 max_lon then [] else [''max_lon''])"

definition respond :: "('a \<Rightarrow> error + 'b) \<Rightarrow> (error + 'a) \<times> storage \<Rightarrow> (error + 'b) \<times> storage" where
  "respond conv out =
     (case out of
        (Inl e, db) \<Rightarrow> (Inl e, db)
      | (Inr r, db) \<Rightarrow> (conv r, db))"

definition post_points :: "wkt_reader \<Rightarrow> wkt_writer \<Rightarrow> engine \<Rightarrow> datetime \<Rightarrow> ExamplePointCreate \<Rightarrow> storage \<Rightarrow> (error + ExamplePointModel) \<times> storage" where
  "post_points wkt_loads wkt eng now payload st =
     get_db (\<lambda>db. respond (model_validate wkt) (create_point wkt_loads wkt eng now payload db)) st"


definition get_points_bbox :: "wkt_writer \<Rightarrow> pyfloat \<Rightarrow> pyfloat \<Rightarrow> pyfloat \<Rightarrow> pyfloat \<Rightarrow> storage \<Rightarrow> (error + ExamplePointModel list) \<times> storage" where
  "get_points_bbox wkt min_lat max_lat min_lon max_lon st =
     get_db (\<lambda>db.
       if bbox_query_errors min_lat max_lat min_lon max_lon \<noteq> [] then
         (Inl (RequestValidationError (bbox_query_errors min_lat max_lat min_lon max_lon)), db)
       else respond (model_validate_list wkt) (read_points_in_bbox min_lat max_lat min_lon max_lon db)) st"

section \<open>Invariants of the table and the envelope test\<close>

text \<open>
  What the column declarations of models.py maintain on every row: the geometry is
  tagged with SRID 4326, and every id was issued by the sequence.
\<close>

definition srid_inv :: "storage \<Rightarrow> bool" where
  "srid_inv db = list_all (\<lambda>r. pv_srid (col_geom r) = 4326) (rows db)"

definition pk_inv :: "storage \<Rightarrow> bool" where
  "pk_inv db = list_all (\<lambda>r. col_id r \<le> id_seq db) (rows db)"

text \<open>
  The envelope test in the words of the specification: a row lies in the bounding box
  when its longitude and latitude are between the bounds, the bounds included.
\<close>

definition in_bbox :: "pyfloat \<Rightarrow> pyfloat \<Rightarrow> pyfloat \<Rightarrow> pyfloat \<Rightarrow> example_point_row \<Rightarrow> bool" where
  "in_bbox min_lat max_lat min_lon max_lon r =
     (fle min_lon (pv_x (col_geom r)) \<and> fle (pv_x (col_geom r)) max_lon \<and>
      fle min_lat (pv_y (col_geom r)) \<and> fle (pv_y (col_geom r)) max_lat)"

section \<open>Concrete inputs\<close>

text \<open>
  The WKT reader and writer at the texts of the examples: what \<^verbatim>\<open>wkt.loads\<close> returns for
  them (it raises on every text that is not WKT, here every text outside the table),
  and what the \<^verbatim>\<open>.wkt\<close> property writes for the geometries read. The writer of shapely
  puts a blank between the geometry keyword and the parenthesis, and writes an
  ordinate with at most sixteen significant digits, so that it writes \<^verbatim>\<open>0.3\<close> for the
  double \<^verbatim>\<open>0.30000000000000004\<close>. The example engine reads the texts the writer wrote
  and, as SQLite does, takes every float but NaN. They instantiate the parameters
  wherever a statement below is evaluated at a concrete input; the general theorems
  hold for every reader, writer and engine.
\<close>

definition example_wkt_loads :: wkt_reader where
  "example_wkt_loads =
     map_of
       [(''POINT(51.51999 -0.10684)'', Point (Finite 51.51999) (Finite (-0.10684))),
        (''POINT(200 10)'', Point (Finite 200) (Finite 10)),
        (''POINT(10 100)'', Point (Finite 10) (Finite 100)),
        (''POINT(1 1)'', Point (Finite 1) (Finite 1)),
        (''POINT(0.30000000000000004 0)'', Point (Finite 0.30000000000000004) (Finite 0))]"

definition example_wkt :: wkt_writer where
  "example_wkt shp =
     (case map_of
        [(Point (Finite 51.51999) (Finite (-0.10684)), ''POINT (51.51999 -0.10684)''),
         (Point (Finite 200) (Finite 10), ''POINT (200 10)''),
         (Point (Finite 10) (Finite 100), ''POINT (10 100)''),
         (Point (Finite 1) (Finite 1), ''POINT (1 1)''),
         (Point (Finite 0.30000000000000004) (Finite 0), ''POINT (0.3 0)''),
         (Point (Finite 0.3) (Finite 0), ''POINT (0.3 0)'')] shp of
        Some t \<Rightarrow> t
      | None \<Rightarrow> [])"

definition example_engine :: engine where
  "example_engine =
     \<lparr>geom_from_ewkt =
        (\<lambda>s. map_of
           [(''POINT (51.51999 -0.10684)'', (Finite 51.51999, Finite (-0.10684))),
            (''POINT (200 10)'', (Finite 200, Finite 10)),
            (''POINT (10 100)'', (Finite 10, Finite 100)),
            (''POINT (1 1)'', (Finite 1, Finite 1)),
            (''POINT (0.3 0)'', (Finite 0.3, Finite 0))]),
      stores_float = (\<lambda>v. v \<noteq> NaN)\<rparr>"

definition empty_storage :: storage where
  "empty_storage = \<lparr>rows = [], id_seq = 0, executed = [], acquired = 0, released = 0\<rparr>"

text \<open>
  A table of three points, scanned in the order of the ids 3, 1, 2: the point with
  id 3 is the corner \<open>(1, 1)\<close>, the point with id 1 is the origin, the point with
  id 2 is \<open>(5, 5)\<close>.
\<close>

definition bbox_store :: storage where
  "bbox_store =
     \<lparr>rows =
        [\<lparr>col_id = 3, col_created_at = 30,
          col_geom = \<lparr>pv_srid = 4326, pv_x = Finite 1, pv_y = Finite 1\<rparr>, col_value = Finite 3\<rparr>,
         \<lparr>col_id = 1, col_created_at = 10,
          col_geom = \<lparr>pv_srid = 4326, pv_x = Finite 0, pv_y = Finite 0\<rparr>, col_value = Finite 1\<rparr>,
         \<lparr>col_id = 2, col_created_at = 20,
          col_geom = \<lparr>pv_srid = 4326, pv_x = Finite 5, pv_y = Finite 5\<rparr>, col_value = Finite 2\<rparr>],
      id_seq = 3, executed = [], acquired = 0, released = 0\<rparr>"

text \<open>
  A table of two points whose scan order is not the order of the ids: the row with
  id 2 reached the table before the row with id 1 (two requests that insert at the
  same time take their ids from the sequence in one order and write their rows in
  the other).
\<close>

definition unordered_store :: storage where
  "unordered_store =
     \<lparr>rows =
        [\<lparr>col_id = 2, col_created_at = 20,
          col_geom = \<lparr>pv_srid = 4326, pv_x = Finite 5, pv_y = Finite 5\<rparr>, col_value = Finite 2\<rparr>,
         \<lparr>col_id = 1, col_created_at = 10,
          col_geom = \<lparr>pv_srid = 4326, pv_x = Finite 0, pv_y = Finite 0\<rparr>, col_value = Finite 1\<rparr>],
      id_seq = 2, executed = [], acquired = 0, released = 0\<rparr>"

section \<open>Facts about the floats and the session\<close>

lemma between_ordered: "fle a b \<Longrightarrow> between a b v = (fle a v \<and> fle v b)"
  by (cases a; cases b; cases v; auto simp add: between_def)

lemma SessionLocal_fields:
  "rows (SessionLocal st) = rows st"
  "id_seq (SessionLocal st) = id_seq st"
  "executed (SessionLocal st) = executed st"
  by (simp_all add: SessionLocal_def)

lemma close_fields:
  "rows (close st) = rows st"
  "id_seq (close st) = id_seq st"
  "executed (close st) = executed st"
  by (simp_all add: close_def)

lemma get_db_fst_snd:
  "fst (get_db body st) = fst (body (SessionLocal st)) \<and>
   snd (get_db body st) = close (snd (body (SessionLocal st)))"
  by (simp add: get_db_def split: prod.splits)



section \<open>Facts about crud.py\<close>

lemma find_fresh_append:
  "pk \<notin> set (map col_id rs) \<Longrightarrow> col_id r = pk \<Longrightarrow> find (\<lambda>r. col_id r = pk) (rs @ [r]) = Some r"
  by (induction rs) auto

lemma find_Some_in: "find P xs = Some x \<Longrightarrow> x \<in> set xs"
  by (induction xs) (auto split: if_splits)

lemma pk_inv_fresh: "pk_inv db \<Longrightarrow> id_seq db + 1 \<notin> set (map col_id (rows db))"
  by (auto simp add: pk_inv_def list_all_iff)

lemma create_parse_failure:
  "wkt_loads (geom_text payload) = None \<Longrightarrow>
     create_example_point wkt_loads wkt eng now db payload = (Inl ShapelyError, db)"
  by (simp add: create_example_point_def)

lemma create_point_ok:
  assumes "wkt_loads (geom_text payload) = Some (Point x y)"
    and "geom_from_ewkt eng 4326 (wkt (Point x y)) = Some (x', y')"
    and "stores_float eng (value_in payload)"
    and "id_seq db + 1 \<notin> set (map col_id (rows db))"
  shows "create_example_point wkt_loads wkt eng now db payload =
           (Inr \<lparr>id' = Some (id_seq db + 1), created_at = Some now,
                 geom = \<lparr>data = Point x' y', srid = 4326\<rparr>, value' = value_in payload\<rparr>,
            db\<lparr>rows := rows db @
                   [\<lparr>col_id = id_seq db + 1, col_created_at = now,
                     col_geom = \<lparr>pv_srid = 4326, pv_x = x', pv_y = y'\<rparr>,
                     col_value = value_in payload\<rparr>],
                id_seq := id_seq db + 1,
                executed := executed db @ [INSERT, COMMIT, SELECT]\<rparr>)"
  using assms
  by (simp add: create_example_point_def commit_def from_shape_def to_shape_def refresh_def
      find_fresh_append load_def Let_def)





text \<open>
  The two invariants hold on the empty table and create keeps them, so they hold on
  every table the application has built; the reads change no row.
\<close>

lemma invariants_initially: "srid_inv empty_storage \<and> pk_inv empty_storage"
  by (simp add: srid_inv_def pk_inv_def empty_storage_def)

lemma create_pk_inv: "pk_inv db \<Longrightarrow> pk_inv (snd (create_example_point L W E now db p))"
  by (auto simp add: create_example_point_def commit_def refresh_def from_shape_def Let_def
      pk_inv_def list_all_iff
      split: option.splits sum.splits prod.splits if_splits)

lemma get_all_example_points_all_rows:
  "fst (get_all_example_points db) = Inr (map load (rows db)) \<and>
   fst (get_all_example_points empty_storage) = Inr []"
  by (simp add: get_all_example_points_def empty_storage_def)

section \<open>Claims about the errors\<close>

text \<open>
  C10. create is atomic when the geometry text does not parse: whenever \<^verbatim>\<open>wkt.loads\<close>
  raises on the text of the payload, \<^verbatim>\<open>create_example_point\<close> raises that error and the
  storage it returns is the storage it was given, statement log included: nothing was
  added, flushed or committed.
\<close>

theorem create_example_point_parse_failure_atomic:
  assumes "wkt_loads (geom_text payload) = None"
  shows "create_example_point wkt_loads wkt eng now db payload = (Inl ShapelyError, db)"
  using assms by (rule create_parse_failure)

theorem create_example_point_parse_failure_atomic_witness:
  "example_wkt_loads ''not a geometry'' = None \<and>
   create_example_point example_wkt_loads example_wkt example_engine 0 bbox_store
     \<lparr>geom_text = ''not a geometry'', value_in = Finite 1\<rparr> = (Inl ShapelyError, bbox_store)"
proof -
  have h: "example_wkt_loads (geom_text \<lparr>geom_text = ''not a geometry'', value_in = Finite 1\<rparr>) = None"
    by (simp add: example_wkt_loads_def)
  show ?thesis
    using h create_example_point_parse_failure_atomic
      [where wkt_loads = example_wkt_loads and wkt = example_wkt and eng = example_engine
         and payload = "\<lparr>geom_text = ''not a geometry'', value_in = Finite 1\<rparr>"
         and now = 0 and db = bbox_store]
    by simp
qed

text \<open>
  C5. Whenever \<^verbatim>\<open>min_lat > max_lat\<close> or \<^verbatim>\<open>min_lon > max_lon\<close>, the handler
  \<^verbatim>\<open>read_points_in_bbox\<close> raises the HTTP exception 422 that names the offending pair
  (the invalid-bounds error), and the storage it leaves is the storage it was given:
  no statement was executed, the repository function was not called.
\<close>

theorem read_points_in_bbox_invalid_bounds:
  assumes "fgt min_lat max_lat \<or> fgt min_lon max_lon"
  shows "read_points_in_bbox min_lat max_lat min_lon max_lon db =
           (Inl (HTTPException 422
                  (if fgt min_lat max_lat then ''min_lat must be <= max_lat''
                   else ''min_lon must be <= max_lon'')), db)"
  using assms by (auto simp add: read_points_in_bbox_def)

theorem read_points_in_bbox_invalid_bounds_witness:
  "fgt (Finite 5) (Finite (-5)) \<and>
   read_points_in_bbox (Finite 5) (Finite (-5)) (Finite 0) (Finite 0) bbox_store =
     (Inl (HTTPException 422 ''min_lat must be <= max_lat''), bbox_store)"
  using read_points_in_bbox_invalid_bounds
    [of "Finite 5" "Finite (-5)" "Finite 0" "Finite 0" bbox_store]
  by (simp add: fgt_def)

text \<open>
  C9. At the public bounding-box route a bound outside its degree range never reaches
  the repository: when \<^verbatim>\<open>min_lat\<close> or \<^verbatim>\<open>max_lat\<close> is not in \<open>[-90, 90]\<close> or \<^verbatim>\<open>min_lon\<close> or
  \<^verbatim>\<open>max_lon\<close> is not in \<open>[-180, 180]\<close>, the request fails with the validation error that
  lists the offending parameters, and the rows, the id sequence and the log of
  executed statements are as before the request.
\<close>

theorem bbox_bounds_rejected_before_repository:
  assumes "\<not> Query_ge_le (-90) 90 min_lat \<or> \<not> Query_ge_le (-90) 90 max_lat \<or>
           \<not> Query_ge_le (-180) 180 min_lon \<or> \<not> Query_ge_le (-180) 180 max_lon"
  shows "fst (get_points_bbox wkt min_lat max_lat min_lon max_lon st) =
           Inl (RequestValidationError (bbox_query_errors min_lat max_lat min_lon max_lon)) \<and>
         bbox_query_errors min_lat max_lat min_lon max_lon \<noteq> [] \<and>
         rows (snd (get_points_bbox wkt min_lat max_lat min_lon max_lon st)) = rows st \<and>
         id_seq (snd (get_points_bbox wkt min_lat max_lat min_lon max_lon st)) = id_seq st \<and>
         executed (snd (get_points_bbox wkt min_lat max_lat min_lon max_lon st)) = executed st"
proof -
  have ne: "bbox_query_errors min_lat max_lat min_lon max_lon \<noteq> []"
    using assms by (auto simp add: bbox_query_errors_def)
  then show ?thesis
    by (simp add: get_points_bbox_def get_db_def SessionLocal_def close_def)
qed

theorem bbox_bounds_rejected_before_repository_witness:
  "\<not> Query_ge_le (-90) 90 (Finite 100) \<and>
   fst (get_points_bbox example_wkt (Finite 100) (Finite 100) (Finite 0) (Finite 0) bbox_store) =
     Inl (RequestValidationError [''min_lat'', ''max_lat'']) \<and>
   rows (snd (get_points_bbox example_wkt (Finite 100) (Finite 100) (Finite 0) (Finite 0) bbox_store)) =
     rows bbox_store \<and>
   executed (snd (get_points_bbox example_wkt (Finite 100) (Finite 100) (Finite 0) (Finite 0) bbox_store)) = []"
  using bbox_bounds_rejected_before_repository
    [of "Finite 100" "Finite 100" "Finite 0" "Finite 0" example_wkt bbox_store]
  by (simp add: Query_ge_le_def fge_def bbox_query_errors_def bbox_store_def)

section \<open>Claims about the session\<close>


section \<open>Claims about the bounding-box query\<close>

lemma where_rows_intersects:
  assumes "list_all (\<lambda>r. pv_srid (col_geom r) = 4326) rs"
    and "fle min_lat max_lat" and "fle min_lon max_lon"
  shows "where_rows (\<lambda>r. ST_Intersects (col_geom r)
                          (ST_MakeEnvelope min_lon min_lat max_lon max_lat 4326)) rs
         = Inr (filter (in_bbox min_lat max_lat min_lon max_lon) rs)"
  using assms
proof (induction rs)
  case Nil
  then show ?case by simp
next
  case (Cons r rs)
  then show ?case
    by (simp add: ST_Intersects_def ST_MakeEnvelope_def between_ordered in_bbox_def)
qed

text \<open>
  C4. On a table whose geometries carry SRID 4326 (the column type), and for bounds with
  \<^verbatim>\<open>min_lat <= max_lat\<close> and \<^verbatim>\<open>min_lon <= max_lon\<close>, \<^verbatim>\<open>get_example_points_in_bbox\<close> returns
  the stored rows that lie in the envelope, its boundary included, each exactly as
  often as it is stored and no other row, in ascending order of id, and leaves the
  rows as they were.
\<close>

theorem get_example_points_in_bbox_intersects:
  assumes "srid_inv db" and "fle min_lat max_lat" and "fle min_lon max_lon"
  shows "\<exists>rs. fst (get_example_points_in_bbox db min_lat max_lat min_lon max_lon) = Inr (map load rs) \<and>
              mset rs = filter_mset (in_bbox min_lat max_lat min_lon max_lon) (mset (rows db)) \<and>
              sorted (map col_id rs) \<and>
              rows (snd (get_example_points_in_bbox db min_lat max_lat min_lon max_lon)) = rows db"
proof -
  let ?rs = "sort_key col_id (filter (in_bbox min_lat max_lat min_lon max_lon) (rows db))"
  have w: "where_rows (\<lambda>r. ST_Intersects (col_geom r)
                            (ST_MakeEnvelope min_lon min_lat max_lon max_lat 4326)) (rows db)
           = Inr (filter (in_bbox min_lat max_lat min_lon max_lon) (rows db))"
    using assms where_rows_intersects by (simp add: srid_inv_def)
  have "fst (get_example_points_in_bbox db min_lat max_lat min_lon max_lon) = Inr (map load ?rs)"
    by (simp add: get_example_points_in_bbox_def w)
  moreover have "mset ?rs = filter_mset (in_bbox min_lat max_lat min_lon max_lon) (mset (rows db))"
    by simp
  moreover have "sorted (map col_id ?rs)"
    by simp
  moreover have "rows (snd (get_example_points_in_bbox db min_lat max_lat min_lon max_lon)) = rows db"
    by (simp add: get_example_points_in_bbox_def w)
  ultimately show ?thesis by blast
qed

text \<open>
  The example of the claim: with the bounds \<open>-1, 1, -1, 1\<close> the query on the three
  points returns the origin (id 1) and then the corner \<open>(1, 1)\<close> (id 3), and not the
  point \<open>(5, 5)\<close>.
\<close>

theorem get_example_points_in_bbox_intersects_witness:
  "srid_inv bbox_store \<and> fle (Finite (-1)) (Finite 1) \<and>
   (\<exists>rs. fst (get_example_points_in_bbox bbox_store (Finite (-1)) (Finite 1) (Finite (-1)) (Finite 1)) =
            Inr (map load rs) \<and>
          mset rs = filter_mset (in_bbox (Finite (-1)) (Finite 1) (Finite (-1)) (Finite 1))
                      (mset (rows bbox_store)) \<and>
          sorted (map col_id rs)) \<and>
   fst (get_example_points_in_bbox bbox_store (Finite (-1)) (Finite 1) (Finite (-1)) (Finite 1)) =
     Inr [\<lparr>id' = Some 1, created_at = Some 10,
           geom = \<lparr>data = Point (Finite 0) (Finite 0), srid = 4326\<rparr>, value' = Finite 1\<rparr>,
          \<lparr>id' = Some 3, created_at = Some 30,
           geom = \<lparr>data = Point (Finite 1) (Finite 1), srid = 4326\<rparr>, value' = Finite 3\<rparr>]"
proof -
  have h1: "srid_inv bbox_store"
    by (simp add: srid_inv_def bbox_store_def)
  have h2: "fle (Finite (-1)) (Finite 1)"
    by simp
  have e: "fst (get_example_points_in_bbox bbox_store (Finite (-1)) (Finite 1) (Finite (-1)) (Finite 1)) =
     Inr [\<lparr>id' = Some 1, created_at = Some 10,
           geom = \<lparr>data = Point (Finite 0) (Finite 0), srid = 4326\<rparr>, value' = Finite 1\<rparr>,
          \<lparr>id' = Some 3, created_at = Some 30,
           geom = \<lparr>data = Point (Finite 1) (Finite 1), srid = 4326\<rparr>, value' = Finite 3\<rparr>]"
    by (simp add: get_example_points_in_bbox_def bbox_store_def ST_MakeEnvelope_def
        ST_Intersects_def between_def load_def)
  from get_example_points_in_bbox_intersects [OF h1 h2 h2] h1 h2 e
  show ?thesis by blast
qed

section \<open>Claims about the spatial reference system\<close>

lemma create_rows:
  "rows (snd (create_example_point L W E now db p)) = rows db \<or>
   (\<exists>r. rows (snd (create_example_point L W E now db p)) = rows db @ [r] \<and>
        pv_srid (col_geom r) = 4326)"
  by (auto simp add: create_example_point_def commit_def refresh_def from_shape_def Let_def
      split: option.splits sum.splits prod.splits if_splits)

lemma create_srid_inv: "srid_inv db \<Longrightarrow> srid_inv (snd (create_example_point L W E now db p))"
  using create_rows[of L W E now db p] by (auto simp add: srid_inv_def)

lemma refresh_result_srid:
  "srid_inv db \<Longrightarrow> fst (refresh pk db) = Inr obj \<Longrightarrow> srid (geom obj) = 4326"
  by (auto simp add: refresh_def Let_def srid_inv_def list_all_iff load_def
      split: option.splits dest: find_Some_in)

lemma commit_srid_inv: "srid_inv db \<Longrightarrow> srid_inv (snd (commit W E now obj db))"
  by (auto simp add: commit_def Let_def srid_inv_def split: option.splits)

lemma create_result_srid:
  assumes "srid_inv db" and "fst (create_example_point L W E now db p) = Inr obj"
  shows "srid (geom obj) = 4326"
proof -
  obtain shp where l: "L (geom_text p) = Some shp"
    using assms(2) by (auto simp add: create_example_point_def split: option.splits)
  let ?o = "\<lparr>id' = None, created_at = None, geom = from_shape shp 4326, value' = value_in p\<rparr>"
  obtain r db1 where c: "commit W E now ?o db = (r, db1)"
    by fastforce
  have i: "srid_inv db1"
    using commit_srid_inv[OF assms(1), of W E now ?o] c by simp
  obtain pk where r: "r = Inr pk"
    using assms(2) l c by (cases r) (auto simp add: create_example_point_def Let_def)
  have "fst (refresh pk db1) = Inr obj"
    using assms(2) l c r by (simp add: create_example_point_def Let_def)
  with i show ?thesis
    by (rule refresh_result_srid)
qed

lemma commit_rejects_other_srid:
  "srid (geom obj) \<noteq> 4326 \<Longrightarrow>
     isl (fst (commit W E now obj db)) \<and> rows (snd (commit W E now obj db)) = rows db"
  by (simp add: commit_def Let_def)

lemma reads_keep_rows:
  "rows (snd (get_all_example_points db)) = rows db \<and>
   rows (snd (get_example_points_in_bbox db a b c d)) = rows db"
  by (simp add: get_all_example_points_def get_example_points_in_bbox_def Let_def split: sum.splits)

text \<open>
  C6. Every persisted geometry is tagged with SRID 4326. On a table where that holds, it
  holds again after each of the three operations, whatever their arguments; a row that
  create adds is tagged 4326 whatever the payload (line 29 of crud.py passes the
  constant); the instance create returns is tagged 4326; and the flush refuses an
  instance tagged with any other SRID without changing the rows.
\<close>

theorem srid_4326_invariant:
  assumes "srid_inv db"
  shows "srid_inv (snd (create_example_point wkt_loads wkt eng now db payload)) \<and>
         srid_inv (snd (get_all_example_points db)) \<and>
         srid_inv (snd (get_example_points_in_bbox db min_lat max_lat min_lon max_lon)) \<and>
         (rows (snd (create_example_point wkt_loads wkt eng now db payload)) = rows db \<or>
          (\<exists>r. rows (snd (create_example_point wkt_loads wkt eng now db payload)) = rows db @ [r] \<and>
               pv_srid (col_geom r) = 4326)) \<and>
         (\<forall>obj. fst (create_example_point wkt_loads wkt eng now db payload) = Inr obj \<longrightarrow>
                srid (geom obj) = 4326) \<and>
         (\<forall>obj. srid (geom obj) \<noteq> 4326 \<longrightarrow>
                isl (fst (commit wkt eng now obj db)) \<and>
                rows (snd (commit wkt eng now obj db)) = rows db)"
proof -
  have 1: "srid_inv (snd (create_example_point wkt_loads wkt eng now db payload))"
    using assms by (rule create_srid_inv)
  have 2: "srid_inv (snd (get_all_example_points db))"
    using assms reads_keep_rows[of db] by (simp add: srid_inv_def)
  have 3: "srid_inv (snd (get_example_points_in_bbox db min_lat max_lat min_lon max_lon))"
    using assms reads_keep_rows[of db min_lat max_lat min_lon max_lon] by (simp add: srid_inv_def)
  have 5: "\<forall>obj. fst (create_example_point wkt_loads wkt eng now db payload) = Inr obj \<longrightarrow>
                srid (geom obj) = 4326"
    using assms create_result_srid by blast
  have 6: "\<forall>obj. srid (geom obj) \<noteq> 4326 \<longrightarrow>
                isl (fst (commit wkt eng now obj db)) \<and>
                rows (snd (commit wkt eng now obj db)) = rows db"
    using commit_rejects_other_srid by blast
  from 1 2 3 create_rows[of wkt_loads wkt eng now db payload] 5 6 show ?thesis
    by blast
qed

theorem srid_4326_invariant_witness:
  "srid_inv bbox_store \<and>
   srid_inv (snd (create_example_point example_wkt_loads example_wkt example_engine 40 bbox_store
                    \<lparr>geom_text = ''POINT(200 10)'', value_in = Finite 4\<rparr>)) \<and>
   rows (snd (create_example_point example_wkt_loads example_wkt example_engine 40 bbox_store
                \<lparr>geom_text = ''POINT(200 10)'', value_in = Finite 4\<rparr>)) =
     rows bbox_store @
       [\<lparr>col_id = 4, col_created_at = 40,
         col_geom = \<lparr>pv_srid = 4326, pv_x = Finite 200, pv_y = Finite 10\<rparr>, col_value = Finite 4\<rparr>] \<and>
   isl (fst (commit example_wkt example_engine 40 \<lparr>id' = None, created_at = None,
                        geom = \<lparr>data = Point (Finite 1) (Finite 1), srid = 3857\<rparr>,
                        value' = Finite 4\<rparr> bbox_store))"
proof -
  have h: "srid_inv bbox_store"
    by (simp add: srid_inv_def bbox_store_def)
  have r: "rows (snd (create_example_point example_wkt_loads example_wkt example_engine 40 bbox_store
                \<lparr>geom_text = ''POINT(200 10)'', value_in = Finite 4\<rparr>)) =
     rows bbox_store @
       [\<lparr>col_id = 4, col_created_at = 40,
         col_geom = \<lparr>pv_srid = 4326, pv_x = Finite 200, pv_y = Finite 10\<rparr>, col_value = Finite 4\<rparr>]"
    by (simp add: create_example_point_def example_wkt_loads_def example_wkt_def
        example_engine_def commit_def refresh_def from_shape_def to_shape_def Let_def
        bbox_store_def)
  have s: "srid (geom \<lparr>id' = None, created_at = None,
                        geom = \<lparr>data = Point (Finite 1) (Finite 1), srid = 3857\<rparr>,
                        value' = Finite 4\<rparr>) \<noteq> 4326"
    by simp
  from srid_4326_invariant
         [OF h, where wkt_loads = example_wkt_loads and wkt = example_wkt
            and eng = example_engine and now = 40
            and payload = "\<lparr>geom_text = ''POINT(200 10)'', value_in = Finite 4\<rparr>"]
       h r s
  show ?thesis by blast
qed

section \<open>Claims about list-all\<close>

text \<open>
  C7. \<^verbatim>\<open>get_all_example_points\<close> selects without \<^verbatim>\<open>order_by\<close>, where the bounding-box query
  orders by id: it returns every stored row, in the order the engine scans them. On the
  table whose scan order is id 2, then id 1, the result is in that order and not in
  ascending order of id.
\<close>

theorem get_all_example_points_scan_order:
  "fst (get_all_example_points unordered_store) =
     Inr [\<lparr>id' = Some 2, created_at = Some 20,
           geom = \<lparr>data = Point (Finite 5) (Finite 5), srid = 4326\<rparr>, value' = Finite 2\<rparr>,
          \<lparr>id' = Some 1, created_at = Some 10,
           geom = \<lparr>data = Point (Finite 0) (Finite 0), srid = 4326\<rparr>, value' = Finite 1\<rparr>] \<and>
   \<not> sorted (map col_id (rows unordered_store))"
  by (simp add: get_all_example_points_def unordered_store_def load_def)section \<open>Claims about create\<close>




text \<open>
  The claim C3 as the specification states it fails on the code in its last part: the
  geometry text of the returned record is written by the WKT writer from the stored
  point, and is not the input text. For the example of the specification the record
  has the value 42.5, an id and a creation time, and the geometry text
  \<^verbatim>\<open>POINT (51.51999 -0.10684)\<close>, which is not the input \<^verbatim>\<open>POINT(51.51999 -0.10684)\<close>.
\<close>

theorem post_points_geometry_text_counterexample:
  "fst (post_points example_wkt_loads example_wkt example_engine 0
          \<lparr>geom_text = ''POINT(51.51999 -0.10684)'', value_in = Finite 42.5\<rparr> empty_storage) =
     Inr \<lparr>m_id = 1, m_created_at = Some 0, m_geom = ''POINT (51.51999 -0.10684)'',
          m_value = Finite 42.5\<rparr> \<and>
   ''POINT (51.51999 -0.10684)'' \<noteq> ''POINT(51.51999 -0.10684)''"
  by (simp add: post_points_def get_db_def respond_def create_point_def SessionLocal_def
      close_def model_validate_def to_shape_def example_wkt_def example_engine_def
      create_example_point_def example_wkt_loads_def empty_storage_def commit_def
      from_shape_def refresh_def load_def Let_def)

text \<open>
  C3, as amended. For every text that the reader reads as a point, whenever the engine
  takes the insert (it reads the text bound for the geometry as a point \<open>(x', y')\<close> and
  takes the value; SQLite does not take the value NaN) on a table whose ids were issued
  by the sequence, create adds exactly one row, the row of the request, and returns the
  full record: its value is the input value, its id is the next value of the sequence
  (an id no stored row has), its creation time is the clock reading of the insert, and
  its geometry text is what the WKT writer writes for the stored point \<open>(x', y')\<close>. The
  stored point is the engine's reading of the writer's text of the point the input
  denotes: the geometry text is the input round-tripped through writer and engine, not
  the input's characters.
\<close>

theorem post_points_returns_record:
  assumes "wkt_loads (geom_text payload) = Some (Point x y)"
    and "geom_from_ewkt eng 4326 (wkt (Point x y)) = Some (x', y')"
    and "stores_float eng (value_in payload)"
    and "pk_inv st"
  shows "fst (post_points wkt_loads wkt eng now payload st) =
           Inr \<lparr>m_id = id_seq st + 1, m_created_at = Some now,
                m_geom = wkt (Point x' y'), m_value = value_in payload\<rparr> \<and>
         rows (snd (post_points wkt_loads wkt eng now payload st)) =
           rows st @ [\<lparr>col_id = id_seq st + 1, col_created_at = now,
                       col_geom = \<lparr>pv_srid = 4326, pv_x = x', pv_y = y'\<rparr>,
                       col_value = value_in payload\<rparr>] \<and>
         id_seq st + 1 \<notin> set (map col_id (rows st))"
proof -
  have fresh: "id_seq st + 1 \<notin> set (map col_id (rows st))"
    using assms(4) by (rule pk_inv_fresh)
  have fresh': "id_seq (SessionLocal st) + 1 \<notin> set (map col_id (rows (SessionLocal st)))"
    using fresh by (simp add: SessionLocal_fields)
  have c: "create_example_point wkt_loads wkt eng now (SessionLocal st) payload =
           (Inr \<lparr>id' = Some (id_seq (SessionLocal st) + 1), created_at = Some now,
                 geom = \<lparr>data = Point x' y', srid = 4326\<rparr>, value' = value_in payload\<rparr>,
            (SessionLocal st)\<lparr>rows := rows (SessionLocal st) @
                   [\<lparr>col_id = id_seq (SessionLocal st) + 1, col_created_at = now,
                     col_geom = \<lparr>pv_srid = 4326, pv_x = x', pv_y = y'\<rparr>,
                     col_value = value_in payload\<rparr>],
                id_seq := id_seq (SessionLocal st) + 1,
                executed := executed (SessionLocal st) @ [INSERT, COMMIT, SELECT]\<rparr>)"
    using assms(1) assms(2) assms(3) fresh' by (rule create_point_ok)
  show ?thesis
    using fresh
    by (simp add: post_points_def get_db_fst_snd create_point_def c
        respond_def model_validate_def to_shape_def close_fields SessionLocal_fields)
qed

text \<open>
  At \<^verbatim>\<open>POINT(0.30000000000000004 0)\<close> with the value 42.5 on the table of three points:
  one row is added, with id 4 and the ordinate \<open>0.3\<close>, and the record carries the text
  \<^verbatim>\<open>POINT (0.3 0)\<close>.
\<close>

theorem post_points_returns_record_witness:
  "example_wkt_loads ''POINT(0.30000000000000004 0)'' =
     Some (Point (Finite 0.30000000000000004) (Finite 0)) \<and>
   geom_from_ewkt example_engine 4326
     (example_wkt (Point (Finite 0.30000000000000004) (Finite 0))) = Some (Finite 0.3, Finite 0) \<and>
   stores_float example_engine (Finite 42.5) \<and> pk_inv bbox_store \<and>
   fst (post_points example_wkt_loads example_wkt example_engine 40
          \<lparr>geom_text = ''POINT(0.30000000000000004 0)'', value_in = Finite 42.5\<rparr> bbox_store) =
     Inr \<lparr>m_id = 4, m_created_at = Some 40, m_geom = ''POINT (0.3 0)'', m_value = Finite 42.5\<rparr> \<and>
   rows (snd (post_points example_wkt_loads example_wkt example_engine 40
                \<lparr>geom_text = ''POINT(0.30000000000000004 0)'', value_in = Finite 42.5\<rparr>
                bbox_store)) =
     rows bbox_store @
       [\<lparr>col_id = 4, col_created_at = 40,
         col_geom = \<lparr>pv_srid = 4326, pv_x = Finite 0.3, pv_y = Finite 0\<rparr>,
         col_value = Finite 42.5\<rparr>]"
proof -
  have h1: "example_wkt_loads
              (geom_text \<lparr>geom_text = ''POINT(0.30000000000000004 0)'', value_in = Finite 42.5\<rparr>) =
            Some (Point (Finite 0.30000000000000004) (Finite 0))"
    by (simp add: example_wkt_loads_def)
  have h2: "geom_from_ewkt example_engine 4326
              (example_wkt (Point (Finite 0.30000000000000004) (Finite 0))) =
            Some (Finite 0.3, Finite 0)"
    by (simp add: example_engine_def example_wkt_def)
  have h3: "stores_float example_engine
              (value_in \<lparr>geom_text = ''POINT(0.30000000000000004 0)'', value_in = Finite 42.5\<rparr>)"
    by (simp add: example_engine_def)
  have h4: "pk_inv bbox_store"
    by (simp add: pk_inv_def bbox_store_def)
  have i: "id_seq bbox_store = 3"
    by (simp add: bbox_store_def)
  have w: "example_wkt (Point (Finite 0.3) (Finite 0)) = ''POINT (0.3 0)''"
    by (simp add: example_wkt_def)
  show ?thesis
    using h1 h2 h3 h4 i w
      post_points_returns_record
        [where wkt_loads = example_wkt_loads and wkt = example_wkt and eng = example_engine
           and now = 40
           and payload = "\<lparr>geom_text = ''POINT(0.30000000000000004 0)'', value_in = Finite 42.5\<rparr>"
           and x = "Finite 0.30000000000000004" and y = "Finite 0"
           and x' = "Finite 0.3" and y' = "Finite 0" and st = bbox_store]
    by simp
qed

section \<open>Claims about the codec\<close>



end
